theory Spec2Isabelle
  imports Main "HOL-Library.Word"
begin

unbundle bit_operations_syntax

section \<open>Data model of \<^verbatim>\<open>runtime/art_method.cc\<close>\<close>

text \<open>
  Pointers are addresses (\<open>0\<close> is \<^verbatim>\<open>nullptr\<close>). Objects reached through a pointer live in
  explicit stores, one total map per object type, from the address to the object.
  A failed \<^verbatim>\<open>CHECK\<close> (and a failed \<^verbatim>\<open>DCHECK\<close> in a debug build) aborts the process: it is
  the \<open>Inl\<close> branch of the result. A managed exception is not an abort: it is stored
  in the throwing thread (\<^verbatim>\<open>Thread::SetException\<close>) and the function returns.
\<close>

type_synonym ptr = nat
type_synonym tid = nat
type_synonym JValue = "64 word"

datatype fatal = CheckFailed string

datatype throwable =
    StackOverflowError
  | IllegalArgumentException string
  | NoClassDefFoundError "16 word"
  | DeoptimizationException
  | Throwable ptr

record ArtMethod =
  declaring_class :: ptr
  access_flags :: "32 word"
  dex_code_item_offset :: "32 word"
  dex_method_index :: "32 word"
  method_index :: "16 word"
  hotness_count :: "16 word"
  entry_point_from_jni :: ptr
  entry_point_from_quick_compiled_code :: ptr
  profiling_info :: ptr
  ignore_aot_code :: bool

datatype reflected_kind = ReflectedConstructor | ReflectedMethod

record AbstractMethod =
  reflected_kind :: reflected_kind
  reflected_art_method :: ptr
  accessible :: bool

text \<open>
  \<^verbatim>\<open>XposedHookInfo\<close>. A JNI global reference is identified with the object it designates:
  \<open>reflected_method\<close> is the reflected object of the backup, \<open>additional_info\<close> the
  caller's payload object.
\<close>

record XposedHookInfo =
  reflected_method :: AbstractMethod
  additional_info :: ptr
  original_method :: ptr

record Frame =
  frame_method :: ptr
  frame_dex_pc :: "32 word"

record ManagedStack =
  top_quick_frame :: ptr
  top_shadow_frame :: ptr

datatype ThreadState = kRunnable | kSuspended | kNative | kWaiting

record Thread =
  thread_state :: ThreadState
  pending_exception :: "throwable option"
  stack_end :: nat
  managed_stack :: "ManagedStack list"
  long_jump_context :: ptr
  frames :: "Frame list"

record JitCodeCache =
  code_map_begin :: ptr
  code_map_end :: ptr
  method_code_map :: "(ptr \<times> ptr) list"

record Jit =
  use_jit_compilation :: bool
  code_cache :: JitCodeCache

text \<open>
  Calls into collaborators whose effect lies outside the modelled state, in call order: the
  scoped suspensions and locks, the class linker's invalidation of the call-site caches that
  refer to a method, the stack walk and the instrumentation of a thread's stack, the JIT code
  cache's invalidation of a method's code, and the log.
\<close>

datatype event =
    ScopedThreadSuspension_enter tid ThreadState
  | ScopedThreadSuspension_exit tid
  | ScopedJitSuspend_enter
  | ScopedJitSuspend_exit
  | ScopedGCCriticalSection_enter tid
  | ScopedGCCriticalSection_exit tid
  | ScopedSuspendAll_enter
  | ScopedSuspendAll_exit
  | MutexLock_thread_list_lock tid
  | MutexUnlock_thread_list_lock tid
  | InvalidateCallersForMethod ptr
  | WalkStack tid
  | InstrumentThreadStack tid
  | InvalidateCompiledCodeFor ptr
  | Log_Warning_UnresolvedExceptionClass "16 word"
  | Log_Info_NotInvoking ptr

record state =
  art_methods :: "ptr \<Rightarrow> ArtMethod"
  hook_infos :: "ptr \<Rightarrow> XposedHookInfo"
  linear_alloc :: ptr
  threads :: "tid \<Rightarrow> Thread"
  thread_list :: "tid list"
  jit :: "Jit option"
  runtime_started :: bool
  trace :: "event list"

text \<open>
  Constants and well-known addresses that \<^verbatim>\<open>art_method.cc\<close> uses and other files
  declare (\<^verbatim>\<open>modifiers.h\<close>, \<^verbatim>\<open>globals.h\<close>, \<^verbatim>\<open>dex_file.h\<close>, \<^verbatim>\<open>dex_instruction.h\<close>,
  \<^verbatim>\<open>runtime_asm_entrypoints.h\<close>): parameters of the model.
\<close>

record constants =
  kIsDebugBuild :: bool
  kAccStatic :: "32 word"
  kAccSynchronized :: "32 word"
  kAccNative :: "32 word"
  kAccAbstract :: "32 word"
  kAccConstructor :: "32 word"
  kAccFastNative :: "32 word"
  kAccDefault :: "32 word"
  kAccDefaultConflict :: "32 word"
  kAccXposedHookedMethod :: "32 word"
  kAccXposedOriginalMethod :: "32 word"
  kDexNoIndex :: "32 word"
  kDexNoIndex16 :: "16 word"
  MOVE_EXCEPTION :: "8 word"
  sizeof_ArtMethod :: nat
  sizeof_XposedHookInfo :: nat
  sizeof_void_ptr :: nat
  GetQuickProxyInvokeHandler :: ptr
  GetQuickToInterpreterBridge :: ptr
  GetQuickInstrumentationEntryPoint :: ptr
  GetQuickInstrumentationExitPc :: ptr
  GetJniDlsymLookupStub :: ptr
  PrettyMethod :: "ptr \<Rightarrow> string"

section \<open>Checks, exceptions, trace\<close>

definition CHECK :: "bool \<Rightarrow> string \<Rightarrow> fatal + 'a \<Rightarrow> fatal + 'a" where
  "CHECK b msg k = (if b then k else Inl (CheckFailed msg))"

definition DCHECK :: "constants \<Rightarrow> bool \<Rightarrow> string \<Rightarrow> fatal + 'a \<Rightarrow> fatal + 'a" where
  "DCHECK K b msg k = (if kIsDebugBuild K then CHECK b msg k else k)"

definition emit :: "event \<Rightarrow> state \<Rightarrow> state" where
  "emit e s = s\<lparr>trace := trace s @ [e]\<rparr>"

definition update_thread :: "tid \<Rightarrow> (Thread \<Rightarrow> Thread) \<Rightarrow> state \<Rightarrow> state" where
  "update_thread t f s = s\<lparr>threads := (threads s)(t := f (threads s t))\<rparr>"

definition GetException :: "state \<Rightarrow> tid \<Rightarrow> throwable option" where
  "GetException s self = pending_exception (threads s self)"

definition SetException :: "tid \<Rightarrow> throwable \<Rightarrow> state \<Rightarrow> state" where
  "SetException self e s = update_thread self (\<lambda>t. t\<lparr>pending_exception := Some e\<rparr>) s"

definition ClearException :: "tid \<Rightarrow> state \<Rightarrow> state" where
  "ClearException self s = update_thread self (\<lambda>t. t\<lparr>pending_exception := None\<rparr>) s"

definition ThrowIllegalArgumentException :: "tid \<Rightarrow> string \<Rightarrow> state \<Rightarrow> state" where
  "ThrowIllegalArgumentException self msg s = SetException self (IllegalArgumentException msg) s"

definition ThrowStackOverflowError :: "tid \<Rightarrow> state \<Rightarrow> state" where
  "ThrowStackOverflowError self s = SetException self StackOverflowError s"

section \<open>Accessors of the method descriptor\<close>

text \<open>
  Modelled from the spec: the inline accessors of \<^verbatim>\<open>art_method.h\<close> are not part of
  \<^verbatim>\<open>art_method.cc\<close>. The spec's data model makes the access attributes a bit-flag set
  (static, native, abstract, synchronized, default, hook flags) and the entry points, the
  code-item offset, the profiling-info reference and the hotness counter plain fields;
  each predicate tests its attribute bit, each setter writes its field.
\<close>

definition update_method :: "ptr \<Rightarrow> (ArtMethod \<Rightarrow> ArtMethod) \<Rightarrow> state \<Rightarrow> state" where
  "update_method p f s = s\<lparr>art_methods := (art_methods s)(p := f (art_methods s p))\<rparr>"

definition GetAccessFlags :: "state \<Rightarrow> ptr \<Rightarrow> 32 word" where
  "GetAccessFlags s p = access_flags (art_methods s p)"

definition SetAccessFlags :: "ptr \<Rightarrow> 32 word \<Rightarrow> state \<Rightarrow> state" where
  "SetAccessFlags p fl s = update_method p (\<lambda>m. m\<lparr>access_flags := fl\<rparr>) s"

definition IsStatic :: "constants \<Rightarrow> state \<Rightarrow> ptr \<Rightarrow> bool" where
  "IsStatic K s p = (GetAccessFlags s p AND kAccStatic K \<noteq> 0)"

definition IsNative :: "constants \<Rightarrow> state \<Rightarrow> ptr \<Rightarrow> bool" where
  "IsNative K s p = (GetAccessFlags s p AND kAccNative K \<noteq> 0)"

definition IsFastNative :: "constants \<Rightarrow> state \<Rightarrow> ptr \<Rightarrow> bool" where
  "IsFastNative K s p = (GetAccessFlags s p AND kAccFastNative K \<noteq> 0)"

definition IsConstructor :: "constants \<Rightarrow> state \<Rightarrow> ptr \<Rightarrow> bool" where
  "IsConstructor K s p = (GetAccessFlags s p AND kAccConstructor K \<noteq> 0)"

definition IsXposedHookedMethod :: "constants \<Rightarrow> state \<Rightarrow> ptr \<Rightarrow> bool" where
  "IsXposedHookedMethod K s p = (GetAccessFlags s p AND kAccXposedHookedMethod K \<noteq> 0)"

definition IsXposedOriginalMethod :: "constants \<Rightarrow> state \<Rightarrow> ptr \<Rightarrow> bool" where
  "IsXposedOriginalMethod K s p = (GetAccessFlags s p AND kAccXposedOriginalMethod K \<noteq> 0)"

definition IsRuntimeMethod :: "constants \<Rightarrow> state \<Rightarrow> ptr \<Rightarrow> bool" where
  "IsRuntimeMethod K s p = (dex_method_index (art_methods s p) = kDexNoIndex K)"

definition GetDeclaringClass :: "state \<Rightarrow> ptr \<Rightarrow> ptr" where
  "GetDeclaringClass s p = declaring_class (art_methods s p)"

definition GetEntryPointFromJni :: "state \<Rightarrow> ptr \<Rightarrow> ptr" where
  "GetEntryPointFromJni s p = entry_point_from_jni (art_methods s p)"

definition SetEntryPointFromJniPtrSize :: "ptr \<Rightarrow> ptr \<Rightarrow> state \<Rightarrow> state" where
  "SetEntryPointFromJniPtrSize p e s = update_method p (\<lambda>m. m\<lparr>entry_point_from_jni := e\<rparr>) s"

definition SetEntryPointFromJni :: "ptr \<Rightarrow> ptr \<Rightarrow> state \<Rightarrow> state" where
  "SetEntryPointFromJni p e s = SetEntryPointFromJniPtrSize p e s"

definition GetEntryPointFromQuickCompiledCode :: "state \<Rightarrow> ptr \<Rightarrow> ptr" where
  "GetEntryPointFromQuickCompiledCode s p = entry_point_from_quick_compiled_code (art_methods s p)"

definition SetEntryPointFromQuickCompiledCodePtrSize :: "ptr \<Rightarrow> ptr \<Rightarrow> state \<Rightarrow> state" where
  "SetEntryPointFromQuickCompiledCodePtrSize p e s =
     update_method p (\<lambda>m. m\<lparr>entry_point_from_quick_compiled_code := e\<rparr>) s"

definition SetEntryPointFromQuickCompiledCode :: "ptr \<Rightarrow> ptr \<Rightarrow> state \<Rightarrow> state" where
  "SetEntryPointFromQuickCompiledCode p e s = SetEntryPointFromQuickCompiledCodePtrSize p e s"

definition GetCodeItemOffset :: "state \<Rightarrow> ptr \<Rightarrow> 32 word" where
  "GetCodeItemOffset s p = dex_code_item_offset (art_methods s p)"

definition SetCodeItemOffset :: "ptr \<Rightarrow> 32 word \<Rightarrow> state \<Rightarrow> state" where
  "SetCodeItemOffset p off s = update_method p (\<lambda>m. m\<lparr>dex_code_item_offset := off\<rparr>) s"

definition SetProfilingInfoPtrSize :: "ptr \<Rightarrow> ptr \<Rightarrow> state \<Rightarrow> state" where
  "SetProfilingInfoPtrSize p info s = update_method p (\<lambda>m. m\<lparr>profiling_info := info\<rparr>) s"

definition IgnoreAotCode :: "state \<Rightarrow> ptr \<Rightarrow> bool" where
  "IgnoreAotCode s p = ignore_aot_code (art_methods s p)"

definition SetIgnoreAotCode :: "ptr \<Rightarrow> state \<Rightarrow> state" where
  "SetIgnoreAotCode p s = update_method p (\<lambda>m. m\<lparr>ignore_aot_code := True\<rparr>) s"

definition GetXposedHookInfo :: "state \<Rightarrow> ptr \<Rightarrow> XposedHookInfo" where
  "GetXposedHookInfo s p = hook_infos s (GetEntryPointFromJni s p)"

definition GetXposedOriginalMethod :: "state \<Rightarrow> ptr \<Rightarrow> ptr" where
  "GetXposedOriginalMethod s p = original_method (GetXposedHookInfo s p)"

section \<open>Runtime and JIT collaborators\<close>

text \<open>
  Modelled from the spec: the runtime, the class linker's allocator and the JIT code cache
  are collaborators declared in other files. JIT compilation is in use when a JIT exists
  and is enabled; the cache's memory is the range from \<open>code_map_begin\<close> to \<open>code_map_end\<close>;
  moving an obsolete method changes the ownership key of its cache entries, not the code;
  the arena allocator hands out the next free address.
\<close>

definition UseJitCompilation :: "state \<Rightarrow> bool" where
  "UseJitCompilation s = (case jit s of None \<Rightarrow> False | Some j \<Rightarrow> use_jit_compilation j)"

definition ContainsPc :: "JitCodeCache \<Rightarrow> ptr \<Rightarrow> bool" where
  "ContainsPc c p = (code_map_begin c \<le> p \<and> p < code_map_end c)"

definition MoveObsoleteMethod :: "ptr \<Rightarrow> ptr \<Rightarrow> JitCodeCache \<Rightarrow> JitCodeCache" where
  "MoveObsoleteMethod old_method new_method c =
     c\<lparr>method_code_map :=
         map (\<lambda>(code, m). (code, if m = old_method then new_method else m)) (method_code_map c)\<rparr>"

definition Alloc :: "nat \<Rightarrow> state \<Rightarrow> ptr \<times> state" where
  "Alloc n s = (linear_alloc s, s\<lparr>linear_alloc := linear_alloc s + n\<rparr>)"

definition CreateRuntimeMethod :: "constants \<Rightarrow> state \<Rightarrow> ptr \<times> state" where
  "CreateRuntimeMethod K s =
     (case Alloc (sizeof_ArtMethod K) s of
        (p, s1) \<Rightarrow> (p, update_method p (\<lambda>m. m\<lparr>dex_method_index := kDexNoIndex K\<rparr>) s1))"

definition CreateFromArtMethod :: "reflected_kind \<Rightarrow> ptr \<Rightarrow> AbstractMethod" where
  "CreateFromArtMethod k p =
     \<lparr>reflected_kind = k, reflected_art_method = p, accessible = False\<rparr>"

definition SetAccessible :: "bool \<Rightarrow> AbstractMethod \<Rightarrow> AbstractMethod" where
  "SetAccessible b r = r\<lparr>accessible := b\<rparr>"

section \<open>\<^verbatim>\<open>ArtMethod::CopyFrom\<close>\<close>

definition CopyFrom :: "constants \<Rightarrow> ptr \<Rightarrow> ptr \<Rightarrow> state \<Rightarrow> state" where
  "CopyFrom K dst src s =
     (let s1 = s\<lparr>art_methods := (art_methods s)(dst := art_methods s src)\<rparr>;
          s2 = update_method dst (\<lambda>m. m\<lparr>declaring_class := GetDeclaringClass s1 src\<rparr>) s1;
          s3 = (case jit s2 of
                  None \<Rightarrow> s2
                | Some j \<Rightarrow>
                    if use_jit_compilation j
                       \<and> ContainsPc (code_cache j) (GetEntryPointFromQuickCompiledCode s2 dst)
                    then SetEntryPointFromQuickCompiledCodePtrSize dst (GetQuickToInterpreterBridge K) s2
                    else s2);
          s4 = (if \<not> IsNative K s3 src then SetProfilingInfoPtrSize dst 0 s3 else s3)
      in update_method dst (\<lambda>m. m\<lparr>hotness_count := 0\<rparr>) s4)"

section \<open>\<^verbatim>\<open>StackReplaceMethodAndInstallInstrumentation\<close>\<close>

text \<open>
  The stack visitor calls \<open>VisitFrame\<close> on each frame, from the top, while it answers
  \<open>True\<close>. \<open>StackReplaceMethodVisitor::VisitFrame\<close> always answers \<open>True\<close>.
\<close>

definition VisitFrame :: "ptr \<Rightarrow> ptr \<Rightarrow> Frame \<Rightarrow> Frame \<times> bool" where
  "VisitFrame search replace f =
     (if frame_method f = search then f\<lparr>frame_method := replace\<rparr> else f, True)"

fun WalkStackFrames :: "(Frame \<Rightarrow> Frame \<times> bool) \<Rightarrow> Frame list \<Rightarrow> Frame list" where
  "WalkStackFrames visit [] = []"
| "WalkStackFrames visit (f # fs) =
     (case visit f of (f', continue) \<Rightarrow>
        f' # (if continue then WalkStackFrames visit fs else fs))"

definition StackReplaceMethodAndInstallInstrumentation :: "tid \<Rightarrow> ptr \<Rightarrow> state \<Rightarrow> state" where
  "StackReplaceMethodAndInstallInstrumentation thread search s =
     (let replace = GetXposedOriginalMethod s search;
          s1 = emit (WalkStack thread)
                 (update_thread thread
                    (\<lambda>t. t\<lparr>frames := WalkStackFrames (VisitFrame search replace) (frames t)\<rparr>) s)
      in emit (InstrumentThreadStack thread) s1)"

primrec ForEach :: "(tid \<Rightarrow> ptr \<Rightarrow> state \<Rightarrow> state) \<Rightarrow> ptr \<Rightarrow> tid list \<Rightarrow> state \<Rightarrow> state" where
  "ForEach callback arg [] s = s"
| "ForEach callback arg (t # ts) s = ForEach callback arg ts (callback t arg s)"

section \<open>\<^verbatim>\<open>ArtMethod::EnableXposedHook\<close>\<close>

definition kRemoveFlags :: "constants \<Rightarrow> 32 word" where
  "kRemoveFlags K =
     kAccNative K OR kAccSynchronized K OR kAccAbstract K OR kAccDefault K OR kAccDefaultConflict K"

definition EnableXposedHook :: "constants \<Rightarrow> tid \<Rightarrow> ptr \<Rightarrow> ptr \<Rightarrow> state \<Rightarrow> state" where
  "EnableXposedHook K self mth additional s =
     (if IsXposedHookedMethod K s mth then s
      else if IsXposedOriginalMethod K s mth then
        ThrowIllegalArgumentException self
          (''Cannot hook the method backup: '' @ PrettyMethod K mth) s
      else
        (case CreateRuntimeMethod K s of (backup_method, s1) \<Rightarrow>
         let s2 = CopyFrom K backup_method mth s1;
             s3 = SetAccessFlags backup_method
                    (GetAccessFlags s2 backup_method OR kAccXposedOriginalMethod K) s2;
             reflected = SetAccessible True
                    (CreateFromArtMethod
                       (if IsConstructor K s3 mth then ReflectedConstructor else ReflectedMethod)
                       backup_method)
         in (case Alloc (sizeof_XposedHookInfo K) s3 of (hook_info, s4) \<Rightarrow>
         let s5 = s4\<lparr>hook_infos := (hook_infos s4)(hook_info :=
                      \<lparr>reflected_method = reflected, additional_info = additional,
                       original_method = backup_method\<rparr>)\<rparr>;
             s6 = emit ScopedSuspendAll_enter
                    (emit (ScopedGCCriticalSection_enter self)
                       (emit ScopedJitSuspend_enter
                          (emit (ScopedThreadSuspension_enter self kSuspended) s5)));
             s7 = emit (InvalidateCallersForMethod mth) s6;
             s8 = (case jit s7 of
                     None \<Rightarrow> s7
                   | Some j \<Rightarrow>
                       s7\<lparr>jit := Some (j\<lparr>code_cache :=
                             MoveObsoleteMethod mth backup_method (code_cache j)\<rparr>)\<rparr>);
             s9 = SetEntryPointFromJniPtrSize mth hook_info s8;
             s10 = SetEntryPointFromQuickCompiledCode mth (GetQuickProxyInvokeHandler K) s9;
             s11 = SetCodeItemOffset mth 0 s10;
             s12 = SetAccessFlags mth
                     ((GetAccessFlags s11 mth AND NOT (kRemoveFlags K)) OR kAccXposedHookedMethod K)
                     s11;
             s13 = emit (MutexLock_thread_list_lock self) s12;
             s14 = ForEach StackReplaceMethodAndInstallInstrumentation mth (thread_list s13) s13
         in emit (ScopedThreadSuspension_exit self)
              (emit ScopedJitSuspend_exit
                 (emit (ScopedGCCriticalSection_exit self)
                    (emit ScopedSuspendAll_exit
                       (emit (MutexUnlock_thread_list_lock self) s14)))))))"

section \<open>Collaborators of the dispatcher, the code locator and the catch-block resolver\<close>

record TryItem =
  try_start_addr :: "32 word"
  try_insn_count :: "16 word"
  try_handlers :: "(16 word \<times> 32 word) list"

record CodeItem =
  insns :: "nat \<Rightarrow> 16 word"
  tries :: "TryItem list"

record OatQuickMethodHeader =
  header_code :: ptr
  header_code_size :: nat

text \<open>
  The class linker, the dex file, the debugger, the interpreter and the quick invoke stubs are
  declared in other files: parameters of the model. Their predicates read state of their own,
  which the model does not hold. The interpreter and compiled code run arbitrary managed
  code, so they take and return the state, and may abort.
\<close>

record collaborators =
  IsQuickResolutionStub :: "ptr \<Rightarrow> bool"
  IsQuickToInterpreterBridge :: "ptr \<Rightarrow> bool"
  IsQuickGenericJniStub :: "ptr \<Rightarrow> bool"
  FindOatMethodFor :: "ptr \<Rightarrow> bool \<times> ptr"
  GetOatMethodQuickCodeFor :: "ptr \<Rightarrow> ptr"
  GetImagePointerSize :: nat
  method_header_code_size :: "ptr \<Rightarrow> nat"
  IsRealProxyMethod :: "ptr \<Rightarrow> bool"
  ResolveType :: "ptr \<Rightarrow> 16 word \<Rightarrow> ptr option"
  IsAssignableFrom :: "ptr \<Rightarrow> ptr \<Rightarrow> bool"
  GetCodeItem :: "ptr \<Rightarrow> CodeItem"
  Opcode :: "16 word \<Rightarrow> 8 word"
  GetShorty :: "ptr \<Rightarrow> string"
  AssertThreadSuspensionIsAllowable :: "tid \<Rightarrow> bool"
  IsForcedInterpreterNeededForCalling :: "tid \<Rightarrow> ptr \<Rightarrow> bool"
  IsForcedInterpretOnly :: bool
  EnterInterpreterFromInvoke ::
    "tid \<Rightarrow> ptr \<Rightarrow> ptr \<Rightarrow> (nat \<Rightarrow> 32 word) \<Rightarrow> JValue option \<Rightarrow> state
       \<Rightarrow> fatal + (JValue option \<times> state)"
  art_quick_invoke_stub ::
    "ptr \<Rightarrow> (nat \<Rightarrow> 32 word) \<Rightarrow> 32 word \<Rightarrow> tid \<Rightarrow> JValue option \<Rightarrow> string \<Rightarrow> state
       \<Rightarrow> fatal + (JValue option \<times> state)"
  art_quick_invoke_static_stub ::
    "ptr \<Rightarrow> (nat \<Rightarrow> 32 word) \<Rightarrow> 32 word \<Rightarrow> tid \<Rightarrow> JValue option \<Rightarrow> string \<Rightarrow> state
       \<Rightarrow> fatal + (JValue option \<times> state)"
  DeoptimizeWithDeoptimizationException ::
    "tid \<Rightarrow> JValue option \<Rightarrow> state \<Rightarrow> fatal + (JValue option \<times> state)"

text \<open>
  Modelled from the spec: \<^verbatim>\<open>OatQuickMethodHeader\<close> and \<^verbatim>\<open>JitCodeCache::LookupMethodHeader\<close>
  are declared in other files. A code region is the range \<open>[start, start + size)\<close>; the header
  built from an entry point starts at that entry point; the JIT lookup answers a header
  containing \<open>pc\<close> tagged with the descriptor, or nothing.
\<close>

definition FromEntryPoint :: "collaborators \<Rightarrow> ptr \<Rightarrow> OatQuickMethodHeader" where
  "FromEntryPoint C entry_point =
     \<lparr>header_code = entry_point, header_code_size = method_header_code_size C entry_point\<rparr>"

definition Contains :: "OatQuickMethodHeader \<Rightarrow> ptr \<Rightarrow> bool" where
  "Contains h pc = (header_code h \<le> pc \<and> pc < header_code h + header_code_size h)"

definition LookupMethodHeader ::
  "collaborators \<Rightarrow> JitCodeCache \<Rightarrow> ptr \<Rightarrow> ptr \<Rightarrow> OatQuickMethodHeader option" where
  "LookupMethodHeader C c pc mth =
     (case find (\<lambda>(code, owner). owner = mth \<and> Contains (FromEntryPoint C code) pc)
             (method_code_map c) of
        None \<Rightarrow> None
      | Some (code, owner) \<Rightarrow> Some (FromEntryPoint C code))"

text \<open>
  Modelled from the spec: \<^verbatim>\<open>CatchHandlerIterator\<close> is declared in \<^verbatim>\<open>dex_file.h\<close>. It yields
  the entries of the exception-handler table whose range covers \<open>dex_pc\<close>, in table order,
  each a type index and a handler address.
\<close>

definition covers :: "TryItem \<Rightarrow> 32 word \<Rightarrow> bool" where
  "covers t dex_pc =
     (unat (try_start_addr t) \<le> unat dex_pc
      \<and> unat dex_pc < unat (try_start_addr t) + unat (try_insn_count t))"

definition CatchHandlerIterator :: "CodeItem \<Rightarrow> 32 word \<Rightarrow> (16 word \<times> 32 word) list" where
  "CatchHandlerIterator code_item dex_pc =
     concat (map try_handlers (filter (\<lambda>t. covers t dex_pc) (tries code_item)))"

text \<open>
  Modelled from the spec: \<^verbatim>\<open>GetClassFromTypeIndex\<close> (\<^verbatim>\<open>art_method-inl.h\<close>) resolves the type
  or fails, and a failure leaves an error pending on the calling thread;
  \<^verbatim>\<open>Thread::GetLongJumpContext\<close> hands the thread's cached context over to the caller;
  pushing a managed-stack fragment saves the thread's managed stack and starts an empty one,
  popping restores the saved one.
\<close>

definition GetClassFromTypeIndex ::
  "collaborators \<Rightarrow> tid \<Rightarrow> ptr \<Rightarrow> 16 word \<Rightarrow> state \<Rightarrow> ptr option \<times> state" where
  "GetClassFromTypeIndex C self mth type_idx s =
     (case ResolveType C mth type_idx of
        None \<Rightarrow> (None, SetException self (NoClassDefFoundError type_idx) s)
      | Some c \<Rightarrow> (Some c, s))"

definition delete_GetLongJumpContext :: "tid \<Rightarrow> state \<Rightarrow> state" where
  "delete_GetLongJumpContext self s = update_thread self (\<lambda>t. t\<lparr>long_jump_context := 0\<rparr>) s"

definition PushManagedStackFragment :: "tid \<Rightarrow> state \<Rightarrow> ManagedStack list \<times> state" where
  "PushManagedStackFragment self s =
     (managed_stack (threads s self),
      update_thread self
        (\<lambda>t. t\<lparr>managed_stack :=
                 \<lparr>top_quick_frame = 0, top_shadow_frame = 0\<rparr> # managed_stack t\<rparr>) s)"

definition PopManagedStackFragment :: "tid \<Rightarrow> ManagedStack list \<Rightarrow> state \<Rightarrow> state" where
  "PopManagedStackFragment self fragment s =
     update_thread self (\<lambda>t. t\<lparr>managed_stack := fragment\<rparr>) s"

section \<open>\<^verbatim>\<open>ArtMethod::FindCatchBlock\<close>\<close>

text \<open>
  The \<^verbatim>\<open>for\<close> loop over the catch handlers: the result is \<open>found_dex_pc\<close>, which starts as
  \<open>kDexNoIndex\<close>, and the state.
\<close>

fun FindCatchBlock_loop ::
  "constants \<Rightarrow> collaborators \<Rightarrow> tid \<Rightarrow> ptr \<Rightarrow> ptr \<Rightarrow> (16 word \<times> 32 word) list \<Rightarrow> state
     \<Rightarrow> 32 word \<times> state" where
  "FindCatchBlock_loop K C self mth exception_type [] s = (kDexNoIndex K, s)"
| "FindCatchBlock_loop K C self mth exception_type ((iter_type_idx, handler_address) # it) s =
     (if iter_type_idx = kDexNoIndex16 K then (handler_address, s)
      else
        (case GetClassFromTypeIndex C self mth iter_type_idx s of
           (None, s1) \<Rightarrow>
             FindCatchBlock_loop K C self mth exception_type it
               (emit (Log_Warning_UnresolvedExceptionClass iter_type_idx)
                  (delete_GetLongJumpContext self (ClearException self s1)))
         | (Some iter_exception_type, s1) \<Rightarrow>
             if IsAssignableFrom C iter_exception_type exception_type
             then (handler_address, s1)
             else FindCatchBlock_loop K C self mth exception_type it s1))"

definition FindCatchBlock ::
  "constants \<Rightarrow> collaborators \<Rightarrow> tid \<Rightarrow> ptr \<Rightarrow> ptr \<Rightarrow> 32 word \<Rightarrow> bool \<Rightarrow> state
     \<Rightarrow> 32 word \<times> bool \<times> state" where
  "FindCatchBlock K C self mth exception_type dex_pc has_no_move_exception s =
     (let code_item = GetCodeItem C mth;
          exception = GetException s self;
          s1 = ClearException self s
      in (case FindCatchBlock_loop K C self mth exception_type
                 (CatchHandlerIterator code_item dex_pc) s1 of
            (found_dex_pc, s2) \<Rightarrow>
              (found_dex_pc,
               (if found_dex_pc \<noteq> kDexNoIndex K
                then Opcode C (insns code_item (unat found_dex_pc)) \<noteq> MOVE_EXCEPTION K
                else has_no_move_exception),
               (case exception of None \<Rightarrow> s2 | Some e \<Rightarrow> SetException self e s2))))"

section \<open>\<^verbatim>\<open>ArtMethod::Invoke\<close>\<close>

text \<open>
  \<open>result\<close> is the \<^verbatim>\<open>JValue*\<close> out-parameter: \<open>None\<close> for \<^verbatim>\<open>nullptr\<close>, otherwise the value
  it points to; the call returns the value it points to afterwards. \<open>args\<close> is the memory
  at the \<^verbatim>\<open>uint32_t*\<close>. \<open>frame_address\<close> is \<^verbatim>\<open>__builtin_frame_address(0)\<close>.
\<close>

definition SetJ :: "JValue \<Rightarrow> JValue option \<Rightarrow> JValue option" where
  "SetJ v result = (case result of None \<Rightarrow> None | Some old \<Rightarrow> Some v)"

definition Invoke ::
  "constants \<Rightarrow> collaborators \<Rightarrow> tid \<Rightarrow> ptr \<Rightarrow> (nat \<Rightarrow> 32 word) \<Rightarrow> 32 word \<Rightarrow> JValue option
     \<Rightarrow> string \<Rightarrow> nat \<Rightarrow> state \<Rightarrow> fatal + (JValue option \<times> state)" where
  "Invoke K C self mth args args_size result shorty frame_address s =
     (if frame_address < stack_end (threads s self)
      then Inr (result, ThrowStackOverflowError self s)
      else
        CHECK (kIsDebugBuild K \<longrightarrow> AssertThreadSuspensionIsAllowable C self)
          ''AssertThreadSuspensionIsAllowable''
       (CHECK (kIsDebugBuild K \<longrightarrow> thread_state (threads s self) = kRunnable)
          ''kRunnable == self->GetState()''
       (CHECK (kIsDebugBuild K \<longrightarrow> GetShorty C mth = shorty)
          ''GetInterfaceMethodIfProxy(sizeof(void*))->GetShorty() == shorty''
       (case PushManagedStackFragment self s of (fragment, s1) \<Rightarrow>
          (case
             (if \<not> runtime_started s1 \<or> IsForcedInterpreterNeededForCalling C self mth then
                (if IsStatic K s1 mth
                 then EnterInterpreterFromInvoke C self mth 0 args result s1
                 else EnterInterpreterFromInvoke C self mth (unat (args 0))
                        (\<lambda>i. args (i + 1)) result s1)
              else
                DCHECK K (GetImagePointerSize C = sizeof_void_ptr K)
                  ''GetImagePointerSize() == sizeof(void*)''
                  (if GetEntryPointFromQuickCompiledCode s1 mth \<noteq> 0 then
                     CHECK (kIsDebugBuild K \<and> IsForcedInterpretOnly C \<longrightarrow> \<not> UseJitCompilation s1)
                       ''!runtime->UseJitCompilation()''
                    (CHECK (kIsDebugBuild K \<and> IsForcedInterpretOnly C \<longrightarrow>
                              GetOatMethodQuickCodeFor C mth = 0
                              \<or> GetOatMethodQuickCodeFor C mth
                                  \<noteq> GetEntryPointFromQuickCompiledCode s1 mth)
                       ''Don't call compiled code when -Xint''
                       (case (if \<not> IsStatic K s1 mth
                              then art_quick_invoke_stub C mth args args_size self result shorty s1
                              else art_quick_invoke_static_stub C mth args args_size self result
                                     shorty s1) of
                          Inl f \<Rightarrow> Inl f
                        | Inr (result2, s2) \<Rightarrow>
                            if GetException s2 self = Some DeoptimizationException
                            then DeoptimizeWithDeoptimizationException C self result2 s2
                            else Inr (result2, s2)))
                   else Inr (SetJ 0 result, emit (Log_Info_NotInvoking mth) s1))) of
             Inl f \<Rightarrow> Inl f
           | Inr (result', s') \<Rightarrow> Inr (result', PopManagedStackFragment self fragment s'))))))"

section \<open>\<^verbatim>\<open>ArtMethod::RegisterNative\<close> and \<^verbatim>\<open>ArtMethod::UnregisterNative\<close>\<close>

text \<open>
  On a hooked method both calls recurse into the method's backup. The recursion ends when it
  reaches a method that is not hooked; \<open>None\<close> is a call that never returns.
\<close>

partial_function (option) RegisterNative ::
  "constants \<Rightarrow> ptr \<Rightarrow> ptr \<Rightarrow> bool \<Rightarrow> state \<Rightarrow> (fatal + state) option" where
  "RegisterNative K mth native_method is_fast s =
     (if IsXposedHookedMethod K s mth
      then RegisterNative K (GetXposedOriginalMethod s mth) native_method is_fast s
      else Some
        (CHECK (IsNative K s mth) ''IsNative()''
        (CHECK (\<not> IsFastNative K s mth) ''!IsFastNative()''
        (CHECK (native_method \<noteq> 0) ''native_method != nullptr''
        (Inr (SetEntryPointFromJni mth native_method
                (if is_fast
                 then SetAccessFlags mth (GetAccessFlags s mth OR kAccFastNative K) s
                 else s)))))))"

partial_function (option) UnregisterNative ::
  "constants \<Rightarrow> ptr \<Rightarrow> state \<Rightarrow> (fatal + state) option" where
  "UnregisterNative K mth s =
     (if IsXposedHookedMethod K s mth
      then UnregisterNative K (GetXposedOriginalMethod s mth) s
      else if IsNative K s mth \<and> \<not> IsFastNative K s mth
      then RegisterNative K mth (GetJniDlsymLookupStub K) False s
      else Some (Inl (CheckFailed ''IsNative() && !IsFastNative()'')))"

section \<open>\<^verbatim>\<open>ArtMethod::GetOatQuickMethodHeader\<close>\<close>

text \<open>The tail of the function, from the comment "The code has to be in an oat file".\<close>

definition GetOatQuickMethodHeader_oat ::
  "constants \<Rightarrow> collaborators \<Rightarrow> state \<Rightarrow> ptr \<Rightarrow> ptr \<Rightarrow> fatal + OatQuickMethodHeader option" where
  "GetOatQuickMethodHeader_oat K C s mth pc =
     (let existing_entry_point = GetEntryPointFromQuickCompiledCode s mth in
      case FindOatMethodFor C mth of (found, oat_entry_point) \<Rightarrow>
        if \<not> found then
          (if IsQuickResolutionStub C existing_entry_point then
             DCHECK K (pc = 0) ''Should be a downcall''
               (DCHECK K (IsNative K s mth) ''IsNative()'' (Inr None))
           else if existing_entry_point = GetQuickInstrumentationEntryPoint K then
             DCHECK K (pc = 0) ''Should be a downcall''
               (DCHECK K (IsNative K s mth) ''IsNative()'' (Inr None))
           else Inr (Some (FromEntryPoint C existing_entry_point)))
        else if oat_entry_point = 0 \<or> IsQuickGenericJniStub C oat_entry_point then
          DCHECK K (IsNative K s mth) ''IsNative()'' (Inr None)
        else
          (let method_header = FromEntryPoint C oat_entry_point in
           if pc = 0 then DCHECK K (IsNative K s mth) ''IsNative()'' (Inr (Some method_header))
           else DCHECK K (Contains method_header pc) ''method_header->Contains(pc)''
                  (Inr (Some method_header))))"

definition GetOatQuickMethodHeader ::
  "constants \<Rightarrow> collaborators \<Rightarrow> state \<Rightarrow> ptr \<Rightarrow> ptr \<Rightarrow> fatal + OatQuickMethodHeader option" where
  "GetOatQuickMethodHeader K C s mth pc =
     DCHECK K (pc \<noteq> GetQuickInstrumentationExitPc K) ''pc != GetQuickInstrumentationExitPc()''
       (if IsRuntimeMethod K s mth then Inr None
        else
          (let existing_entry_point = GetEntryPointFromQuickCompiledCode s mth in
           CHECK (existing_entry_point \<noteq> 0) ''existing_entry_point != nullptr''
             (if IsQuickGenericJniStub C existing_entry_point then Inr None
              else if existing_entry_point = GetQuickProxyInvokeHandler K then
                DCHECK K (IsXposedHookedMethod K s mth
                          \<or> IsRealProxyMethod C mth \<and> \<not> IsConstructor K s mth)
                  ''IsXposedHookedMethod() || IsRealProxyMethod() && !IsConstructor()''
                  (Inr None)
              else if \<not> IsQuickResolutionStub C existing_entry_point
                      \<and> \<not> IsQuickToInterpreterBridge C existing_entry_point
                      \<and> Contains (FromEntryPoint C existing_entry_point) pc
              then Inr (Some (FromEntryPoint C existing_entry_point))
              else
                (case jit s of
                   None \<Rightarrow> GetOatQuickMethodHeader_oat K C s mth pc
                 | Some j \<Rightarrow>
                     (case LookupMethodHeader C (code_cache j) pc mth of
                        Some method_header \<Rightarrow>
                          DCHECK K (Contains method_header pc) ''method_header->Contains(pc)''
                            (Inr (Some method_header))
                      | None \<Rightarrow>
                          DCHECK K (\<not> ContainsPc (code_cache j) pc)
                            ''!code_cache->ContainsPc(pc)''
                            (GetOatQuickMethodHeader_oat K C s mth pc))))))"

section \<open>\<^verbatim>\<open>ArtMethod::InvalidateCompiledCode\<close>\<close>

definition InvalidateCompiledCode :: "constants \<Rightarrow> ptr \<Rightarrow> state \<Rightarrow> fatal + state" where
  "InvalidateCompiledCode K mth s =
     CHECK (\<not> IsXposedHookedMethod K s mth) ''!IsXposedHookedMethod()''
       (let s1 = (if \<not> IgnoreAotCode s mth then SetIgnoreAotCode mth s else s) in
        if UseJitCompilation s1
        then Inr (emit (InvalidateCompiledCodeFor mth) s1)
        else Inr (SetEntryPointFromQuickCompiledCode mth (GetQuickToInterpreterBridge K) s1))"

section \<open>The catch-block scan in the spec's words\<close>

text \<open>
  The spec describes the scan declaratively: a catch-all handler matches unconditionally, a
  typed handler matches when its class resolves and is assignable from the thrown class, and
  the first matching handler in table order gives the result. These definitions follow the
  spec; the theorems below compare them with \<open>FindCatchBlock_loop\<close>.
\<close>

definition handler_matches ::
  "constants \<Rightarrow> collaborators \<Rightarrow> ptr \<Rightarrow> ptr \<Rightarrow> 16 word \<times> 32 word \<Rightarrow> bool" where
  "handler_matches K C mth exception_type h =
     (fst h = kDexNoIndex16 K
      \<or> (case ResolveType C mth (fst h) of
            None \<Rightarrow> False
          | Some c \<Rightarrow> IsAssignableFrom C c exception_type))"

definition first_matching_handler ::
  "constants \<Rightarrow> collaborators \<Rightarrow> ptr \<Rightarrow> ptr \<Rightarrow> (16 word \<times> 32 word) list \<Rightarrow> 32 word" where
  "first_matching_handler K C mth exception_type hs =
     (case find (handler_matches K C mth exception_type) hs of
        None \<Rightarrow> kDexNoIndex K
      | Some h \<Rightarrow> snd h)"

definition unresolved_before_match ::
  "constants \<Rightarrow> collaborators \<Rightarrow> ptr \<Rightarrow> ptr \<Rightarrow> (16 word \<times> 32 word) list \<Rightarrow> 16 word list" where
  "unresolved_before_match K C mth exception_type hs =
     map fst (filter (\<lambda>h. ResolveType C mth (fst h) = None)
                (takeWhile (\<lambda>h. \<not> handler_matches K C mth exception_type h) hs))"

section \<open>A concrete configuration\<close>

text \<open>
  A choice of constants in which every access flag is a bit of its own, and small
  collaborators and a small state: every address holds a public native method, there are two
  threads and no JIT.
\<close>

definition example_constants :: constants where
  "example_constants =
     \<lparr>kIsDebugBuild = True,
      kAccStatic = 0x0008, kAccSynchronized = 0x0020, kAccNative = 0x0100,
      kAccAbstract = 0x0400, kAccConstructor = 0x00010000, kAccFastNative = 0x00080000,
      kAccDefault = 0x00400000, kAccDefaultConflict = 0x00800000,
      kAccXposedHookedMethod = 0x10000000, kAccXposedOriginalMethod = 0x04000000,
      kDexNoIndex = 0xFFFFFFFF, kDexNoIndex16 = 0xFFFF, MOVE_EXCEPTION = 0x0D,
      sizeof_ArtMethod = 48, sizeof_XposedHookInfo = 24, sizeof_void_ptr = 8,
      GetQuickProxyInvokeHandler = 20, GetQuickToInterpreterBridge = 11,
      GetQuickInstrumentationEntryPoint = 13, GetQuickInstrumentationExitPc = 14,
      GetJniDlsymLookupStub = 15, PrettyMethod = (\<lambda>p. ''void Foo.bar()'')\<rparr>"

definition example_collaborators :: collaborators where
  "example_collaborators =
     \<lparr>IsQuickResolutionStub = (\<lambda>p. p = 10),
      IsQuickToInterpreterBridge = (\<lambda>p. p = 11),
      IsQuickGenericJniStub = (\<lambda>p. p = 12),
      FindOatMethodFor = (\<lambda>m. if m = 1 then (True, 2000) else (False, 0)),
      GetOatMethodQuickCodeFor = (\<lambda>m. if m = 1 then 2000 else 0),
      GetImagePointerSize = 8,
      method_header_code_size = (\<lambda>p. 16),
      IsRealProxyMethod = (\<lambda>m. False),
      ResolveType = (\<lambda>m type_idx. if type_idx = 3 then None else Some (unat type_idx)),
      IsAssignableFrom = (\<lambda>c e. c = e),
      GetCodeItem = (\<lambda>m.
        \<lparr>insns = (\<lambda>i. if i = 40 then 0x000D else 0x0012),
         tries = [\<lparr>try_start_addr = 0, try_insn_count = 10,
                   try_handlers = [(3, 30), (5, 40), (0xFFFF, 50)]\<rparr>]\<rparr>),
      Opcode = (\<lambda>inst. ucast (inst AND 0xFF)),
      GetShorty = (\<lambda>m. ''V''),
      AssertThreadSuspensionIsAllowable = (\<lambda>t. True),
      IsForcedInterpreterNeededForCalling = (\<lambda>t m. False),
      IsForcedInterpretOnly = False,
      EnterInterpreterFromInvoke = (\<lambda>self m receiver args result s. Inr (result, s)),
      art_quick_invoke_stub = (\<lambda>m args args_size self result shorty s. Inr (result, s)),
      art_quick_invoke_static_stub = (\<lambda>m args args_size self result shorty s. Inr (result, s)),
      DeoptimizeWithDeoptimizationException = (\<lambda>self result s. Inr (result, s))\<rparr>"

definition example_method :: ArtMethod where
  "example_method =
     \<lparr>declaring_class = 700, access_flags = 0x0101, dex_code_item_offset = 64,
      dex_method_index = 7, method_index = 2, hotness_count = 9,
      entry_point_from_jni = 15, entry_point_from_quick_compiled_code = 1000,
      profiling_info = 0, ignore_aot_code = False\<rparr>"

definition example_thread :: Thread where
  "example_thread =
     \<lparr>thread_state = kRunnable, pending_exception = None, stack_end = 4096,
      managed_stack = [], long_jump_context = 0,
      frames = [\<lparr>frame_method = 5, frame_dex_pc = 4\<rparr>, \<lparr>frame_method = 2, frame_dex_pc = 8\<rparr>]\<rparr>"

definition example_state :: state where
  "example_state =
     \<lparr>art_methods = (\<lambda>p. example_method),
      hook_infos = (\<lambda>p. \<lparr>reflected_method =
                             \<lparr>reflected_kind = ReflectedMethod, reflected_art_method = 0,
                              accessible = False\<rparr>,
                           additional_info = 0, original_method = 0\<rparr>),
      linear_alloc = 100,
      threads = (\<lambda>t. example_thread),
      thread_list = [2, 3],
      jit = None,
      runtime_started = True,
      trace = []\<rparr>"

section \<open>Basic facts\<close>

lemmas accessor_defs = GetAccessFlags_def SetAccessFlags_def IsStatic_def IsNative_def
  IsFastNative_def IsConstructor_def IsXposedHookedMethod_def IsXposedOriginalMethod_def
  IsRuntimeMethod_def GetDeclaringClass_def GetEntryPointFromJni_def
  SetEntryPointFromJniPtrSize_def SetEntryPointFromJni_def GetEntryPointFromQuickCompiledCode_def
  SetEntryPointFromQuickCompiledCodePtrSize_def SetEntryPointFromQuickCompiledCode_def
  GetCodeItemOffset_def SetCodeItemOffset_def SetProfilingInfoPtrSize_def IgnoreAotCode_def
  SetIgnoreAotCode_def GetXposedHookInfo_def GetXposedOriginalMethod_def update_method_def

lemmas example_defs = example_constants_def example_collaborators_def example_method_def
  example_thread_def example_state_def

lemma CHECK_Inr: "(CHECK b msg k = Inr y) = (b \<and> k = Inr y)"
  by (simp add: CHECK_def)

lemma DCHECK_Inr: "(DCHECK K b msg k = Inr y) = ((kIsDebugBuild K \<longrightarrow> b) \<and> k = Inr y)"
  by (simp add: DCHECK_def CHECK_def)

lemma flags_removed: "h AND r = 0 \<Longrightarrow> ((x AND NOT r) OR h) AND r = (0::32 word)"
  by (simp add: bit.conj_disj_distrib2 and.assoc)

lemma flags_hooked: "((x AND NOT r) OR h) AND h = (h::32 word)"
  by (simp add: bit.conj_disj_distrib2)

section \<open>The hot-patch installer\<close>

lemma ForEach_StackReplace_frame:
  "art_methods (ForEach StackReplaceMethodAndInstallInstrumentation d ts s) = art_methods s
   \<and> hook_infos (ForEach StackReplaceMethodAndInstallInstrumentation d ts s) = hook_infos s
   \<and> linear_alloc (ForEach StackReplaceMethodAndInstallInstrumentation d ts s) = linear_alloc s
   \<and> jit (ForEach StackReplaceMethodAndInstallInstrumentation d ts s) = jit s
   \<and> thread_list (ForEach StackReplaceMethodAndInstallInstrumentation d ts s) = thread_list s
   \<and> runtime_started (ForEach StackReplaceMethodAndInstallInstrumentation d ts s)
       = runtime_started s"
  by (induction ts arbitrary: s)
     (simp_all add: StackReplaceMethodAndInstallInstrumentation_def emit_def update_thread_def
        Let_def)

lemma CopyFrom_frame:
  "hook_infos (CopyFrom K dst src s) = hook_infos s
   \<and> linear_alloc (CopyFrom K dst src s) = linear_alloc s
   \<and> threads (CopyFrom K dst src s) = threads s
   \<and> thread_list (CopyFrom K dst src s) = thread_list s
   \<and> jit (CopyFrom K dst src s) = jit s
   \<and> trace (CopyFrom K dst src s) = trace s"
  by (simp add: CopyFrom_def Let_def accessor_defs split: option.splits)

lemma WalkStackFrames_VisitFrame:
  "WalkStackFrames (VisitFrame search replace) fs
     = map (\<lambda>f. if frame_method f = search then f\<lparr>frame_method := replace\<rparr> else f) fs"
  by (induction fs) (simp_all add: VisitFrame_def)

lemma ForEach_StackReplace_threads:
  "frames (threads (ForEach StackReplaceMethodAndInstallInstrumentation d ts s) t)
     = (if t \<in> set ts
        then map (\<lambda>f. if frame_method f = d
                       then f\<lparr>frame_method := GetXposedOriginalMethod s d\<rparr> else f)
               (frames (threads s t))
        else frames (threads s t))"
proof (induction ts arbitrary: s)
  case Nil
  show ?case by simp
next
  case (Cons a ts)
  let ?s1 = "StackReplaceMethodAndInstallInstrumentation a d s"
  let ?rw = "\<lambda>f. if frame_method f = d
                  then f\<lparr>frame_method := GetXposedOriginalMethod s d\<rparr> else f"
  have orig: "GetXposedOriginalMethod ?s1 d = GetXposedOriginalMethod s d"
    by (simp add: StackReplaceMethodAndInstallInstrumentation_def Let_def emit_def
          update_thread_def accessor_defs)
  have fr: "frames (threads ?s1 u)
      = (if u = a then map ?rw (frames (threads s u)) else frames (threads s u))" for u
    by (simp add: StackReplaceMethodAndInstallInstrumentation_def Let_def emit_def
          update_thread_def WalkStackFrames_VisitFrame)
  have idem: "map ?rw (map ?rw fs) = map ?rw fs" for fs
    by (induction fs) simp_all
  show ?case
    by (simp only: ForEach.simps Cons.IH orig fr set_simps insert_iff idem split: if_splits)
       simp
qed

lemma ForEach_StackReplace_trace:
  "trace (ForEach StackReplaceMethodAndInstallInstrumentation d ts s)
     = trace s @ concat (map (\<lambda>t. [WalkStack t, InstrumentThreadStack t]) ts)"
  by (induction ts arbitrary: s)
     (simp_all add: StackReplaceMethodAndInstallInstrumentation_def emit_def update_thread_def
        Let_def)

text \<open>
  C1. After \<open>EnableXposedHook\<close> runs on a descriptor \<open>d\<close> that is neither hooked nor a backup,
  the JNI entry point of \<open>d\<close> is the address of the newly allocated hook record, which holds
  the caller's payload, the backup descriptor and the reflected object of the backup; the
  compiled-code entry point of \<open>d\<close> is the
  proxy invoke handler; its code-item offset is 0; the native, synchronized, abstract, default
  and default-conflict bits are cleared; and \<open>d\<close> is hooked. The hooked-method bit is
  taken to be a bit of its own: not zero and none of the removed bits.
\<close>

theorem EnableXposedHook_installs:
  assumes "\<not> IsXposedHookedMethod K s d" and "\<not> IsXposedOriginalMethod K s d"
    and "kAccXposedHookedMethod K \<noteq> 0"
    and "kAccXposedHookedMethod K AND kRemoveFlags K = 0"
  shows "GetEntryPointFromJni (EnableXposedHook K self d payload s) d
           = linear_alloc s + sizeof_ArtMethod K
       \<and> additional_info (GetXposedHookInfo (EnableXposedHook K self d payload s) d) = payload
       \<and> original_method (GetXposedHookInfo (EnableXposedHook K self d payload s) d)
           = linear_alloc s
       \<and> reflected_art_method
           (reflected_method (GetXposedHookInfo (EnableXposedHook K self d payload s) d))
           = linear_alloc s
       \<and> GetEntryPointFromQuickCompiledCode (EnableXposedHook K self d payload s) d
           = GetQuickProxyInvokeHandler K
       \<and> GetCodeItemOffset (EnableXposedHook K self d payload s) d = 0
       \<and> GetAccessFlags (EnableXposedHook K self d payload s) d AND kRemoveFlags K = 0
       \<and> IsXposedHookedMethod K (EnableXposedHook K self d payload s) d"
  using assms
  by (simp add: EnableXposedHook_def Let_def CreateRuntimeMethod_def Alloc_def
        accessor_defs emit_def ForEach_StackReplace_frame CopyFrom_frame
        flags_removed flags_hooked SetAccessible_def CreateFromArtMethod_def
        split: prod.splits option.splits)

theorem EnableXposedHook_installs_witness:
  "\<not> IsXposedHookedMethod example_constants example_state 5
   \<and> \<not> IsXposedOriginalMethod example_constants example_state 5
   \<and> kAccXposedHookedMethod example_constants \<noteq> 0
   \<and> kAccXposedHookedMethod example_constants AND kRemoveFlags example_constants = 0
   \<and> GetEntryPointFromJni (EnableXposedHook example_constants 2 5 77 example_state) 5 = 148
   \<and> additional_info
        (GetXposedHookInfo (EnableXposedHook example_constants 2 5 77 example_state) 5) = 77
   \<and> original_method
        (GetXposedHookInfo (EnableXposedHook example_constants 2 5 77 example_state) 5) = 100
   \<and> reflected_art_method
        (reflected_method
           (GetXposedHookInfo (EnableXposedHook example_constants 2 5 77 example_state) 5)) = 100
   \<and> GetEntryPointFromQuickCompiledCode
        (EnableXposedHook example_constants 2 5 77 example_state) 5 = 20
   \<and> GetCodeItemOffset (EnableXposedHook example_constants 2 5 77 example_state) 5 = 0
   \<and> GetAccessFlags (EnableXposedHook example_constants 2 5 77 example_state) 5
        AND kRemoveFlags example_constants = 0
   \<and> IsXposedHookedMethod example_constants
        (EnableXposedHook example_constants 2 5 77 example_state) 5"
proof -
  have h1: "\<not> IsXposedHookedMethod example_constants example_state 5"
    by (simp add: IsXposedHookedMethod_def GetAccessFlags_def example_defs)
  have h2: "\<not> IsXposedOriginalMethod example_constants example_state 5"
    by (simp add: IsXposedOriginalMethod_def GetAccessFlags_def example_defs)
  have h3: "kAccXposedHookedMethod example_constants \<noteq> 0"
    by (simp add: example_constants_def)
  have h4: "kAccXposedHookedMethod example_constants AND kRemoveFlags example_constants = 0"
    by (simp add: example_constants_def kRemoveFlags_def)
  have c: "linear_alloc example_state = 100" "sizeof_ArtMethod example_constants = 48"
    "GetQuickProxyInvokeHandler example_constants = 20"
    by (simp_all add: example_defs)
  from EnableXposedHook_installs [OF h1 h2 h3 h4, of 2 77] h1 h2 h3 h4
  show ?thesis
    by (simp add: c)
qed

text \<open>
  C2. \<open>EnableXposedHook\<close> on a descriptor that is already hooked returns the state as it
  was, so the existing hook record and its payload are intact. On a descriptor that is not
  hooked and is flagged as a backup it throws \<open>IllegalArgumentException\<close> on the calling
  thread and changes nothing else: no descriptor and no hook record is touched.
\<close>

theorem EnableXposedHook_rejects:
  "(IsXposedHookedMethod K s d \<longrightarrow> EnableXposedHook K self d payload s = s)
   \<and> (\<not> IsXposedHookedMethod K s d \<and> IsXposedOriginalMethod K s d \<longrightarrow>
        EnableXposedHook K self d payload s
          = s\<lparr>threads := (threads s)(self := (threads s self)\<lparr>pending_exception :=
                Some (IllegalArgumentException
                        (''Cannot hook the method backup: '' @ PrettyMethod K d))\<rparr>)\<rparr>)"
  by (simp add: EnableXposedHook_def ThrowIllegalArgumentException_def SetException_def
        update_thread_def)

theorem EnableXposedHook_rejects_witness:
  "IsXposedHookedMethod example_constants
     (example_state\<lparr>art_methods := \<lambda>p. example_method\<lparr>access_flags := 0x10000001\<rparr>\<rparr>) 5
   \<and> EnableXposedHook example_constants 2 5 77
        (example_state\<lparr>art_methods := \<lambda>p. example_method\<lparr>access_flags := 0x10000001\<rparr>\<rparr>)
       = example_state\<lparr>art_methods := \<lambda>p. example_method\<lparr>access_flags := 0x10000001\<rparr>\<rparr>
   \<and> \<not> IsXposedHookedMethod example_constants
         (example_state\<lparr>art_methods := \<lambda>p. example_method\<lparr>access_flags := 0x04000101\<rparr>\<rparr>) 5
   \<and> IsXposedOriginalMethod example_constants
         (example_state\<lparr>art_methods := \<lambda>p. example_method\<lparr>access_flags := 0x04000101\<rparr>\<rparr>) 5
   \<and> pending_exception (threads (EnableXposedHook example_constants 2 5 77
         (example_state\<lparr>art_methods := \<lambda>p. example_method\<lparr>access_flags := 0x04000101\<rparr>\<rparr>)) 2)
       = Some (IllegalArgumentException ''Cannot hook the method backup: void Foo.bar()'')
   \<and> art_methods (EnableXposedHook example_constants 2 5 77
         (example_state\<lparr>art_methods := \<lambda>p. example_method\<lparr>access_flags := 0x04000101\<rparr>\<rparr>))
       = (\<lambda>p. example_method\<lparr>access_flags := 0x04000101\<rparr>)"
proof -
  let ?hooked = "example_state\<lparr>art_methods := \<lambda>p. example_method\<lparr>access_flags := 0x10000001\<rparr>\<rparr>"
  let ?backup = "example_state\<lparr>art_methods := \<lambda>p. example_method\<lparr>access_flags := 0x04000101\<rparr>\<rparr>"
  have h1: "IsXposedHookedMethod example_constants ?hooked 5"
    by (simp add: IsXposedHookedMethod_def GetAccessFlags_def example_defs)
  have h2: "\<not> IsXposedHookedMethod example_constants ?backup 5"
    by (simp add: IsXposedHookedMethod_def GetAccessFlags_def example_defs)
  have h3: "IsXposedOriginalMethod example_constants ?backup 5"
    by (simp add: IsXposedOriginalMethod_def GetAccessFlags_def example_defs)
  have p: "PrettyMethod example_constants 5 = ''void Foo.bar()''"
    by (simp add: example_constants_def)
  from EnableXposedHook_rejects [of example_constants ?hooked 5 2 77] h1
  have r1: "EnableXposedHook example_constants 2 5 77 ?hooked = ?hooked"
    by blast
  from EnableXposedHook_rejects [of example_constants ?backup 5 2 77] h2 h3
  have r2: "EnableXposedHook example_constants 2 5 77 ?backup
      = ?backup\<lparr>threads := (threads ?backup)(2 := (threads ?backup 2)\<lparr>pending_exception :=
                Some (IllegalArgumentException
                        (''Cannot hook the method backup: '' @ PrettyMethod example_constants 5))\<rparr>)\<rparr>"
    by blast
  show ?thesis
    using h1 h2 h3 by (simp add: r1 r2 p)
qed

text \<open>
  C3. \<open>EnableXposedHook\<close> on a descriptor \<open>d\<close> that is neither hooked nor a backup walks the
  stack of every thread of the thread list: each frame whose method is \<open>d\<close> then refers to
  the backup descriptor of \<open>d\<close>, every other frame is as it was. After the walk of a thread's
  stack, instrumentation is installed on that thread's stack, and all of this happens after
  all threads were suspended and before they are resumed.
\<close>

theorem EnableXposedHook_rewrites_frames:
  assumes "\<not> IsXposedHookedMethod K s d" and "\<not> IsXposedOriginalMethod K s d"
  shows "GetXposedOriginalMethod (EnableXposedHook K self d payload s) d = linear_alloc s
       \<and> (\<forall>t \<in> set (thread_list s).
             frames (threads (EnableXposedHook K self d payload s) t)
               = map (\<lambda>f. if frame_method f = d then f\<lparr>frame_method := linear_alloc s\<rparr> else f)
                   (frames (threads s t)))
       \<and> trace (EnableXposedHook K self d payload s)
           = trace s
             @ [ScopedThreadSuspension_enter self kSuspended, ScopedJitSuspend_enter,
                ScopedGCCriticalSection_enter self, ScopedSuspendAll_enter,
                InvalidateCallersForMethod d, MutexLock_thread_list_lock self]
             @ concat (map (\<lambda>t. [WalkStack t, InstrumentThreadStack t]) (thread_list s))
             @ [MutexUnlock_thread_list_lock self, ScopedSuspendAll_exit,
                ScopedGCCriticalSection_exit self, ScopedJitSuspend_exit,
                ScopedThreadSuspension_exit self]"
  using assms
  by (simp add: EnableXposedHook_def Let_def CreateRuntimeMethod_def Alloc_def
        accessor_defs emit_def ForEach_StackReplace_frame CopyFrom_frame
        ForEach_StackReplace_threads ForEach_StackReplace_trace
        split: prod.splits option.splits)

theorem EnableXposedHook_rewrites_frames_witness:
  "\<not> IsXposedHookedMethod example_constants example_state 5
   \<and> \<not> IsXposedOriginalMethod example_constants example_state 5
   \<and> GetXposedOriginalMethod (EnableXposedHook example_constants 2 5 77 example_state) 5 = 100
   \<and> frames (threads (EnableXposedHook example_constants 2 5 77 example_state) 2)
       = [\<lparr>frame_method = 100, frame_dex_pc = 4\<rparr>, \<lparr>frame_method = 2, frame_dex_pc = 8\<rparr>]
   \<and> frames (threads (EnableXposedHook example_constants 2 5 77 example_state) 3)
       = [\<lparr>frame_method = 100, frame_dex_pc = 4\<rparr>, \<lparr>frame_method = 2, frame_dex_pc = 8\<rparr>]
   \<and> trace (EnableXposedHook example_constants 2 5 77 example_state)
       = [ScopedThreadSuspension_enter 2 kSuspended, ScopedJitSuspend_enter,
          ScopedGCCriticalSection_enter 2, ScopedSuspendAll_enter,
          InvalidateCallersForMethod 5, MutexLock_thread_list_lock 2,
          WalkStack 2, InstrumentThreadStack 2, WalkStack 3, InstrumentThreadStack 3,
          MutexUnlock_thread_list_lock 2, ScopedSuspendAll_exit,
          ScopedGCCriticalSection_exit 2, ScopedJitSuspend_exit,
          ScopedThreadSuspension_exit 2]"
proof -
  have h1: "\<not> IsXposedHookedMethod example_constants example_state 5"
    by (simp add: IsXposedHookedMethod_def GetAccessFlags_def example_defs)
  have h2: "\<not> IsXposedOriginalMethod example_constants example_state 5"
    by (simp add: IsXposedOriginalMethod_def GetAccessFlags_def example_defs)
  have c: "linear_alloc example_state = 100" "thread_list example_state = [2, 3]"
    "trace example_state = []"
    "frames (threads example_state t)
       = [\<lparr>frame_method = 5, frame_dex_pc = 4\<rparr>, \<lparr>frame_method = 2, frame_dex_pc = 8\<rparr>]" for t
    by (simp_all add: example_defs)
  from EnableXposedHook_rewrites_frames [OF h1 h2, of 2 77] h1 h2
  show ?thesis
    by (simp add: c)
qed

section \<open>The code locator\<close>

lemma LookupMethodHeader_Contains:
  "LookupMethodHeader C c pc mth = Some h \<Longrightarrow> Contains h pc"
  by (auto simp: LookupMethodHeader_def find_Some_iff split: option.splits)

lemma GetOatQuickMethodHeader_oat_contains:
  assumes "GetOatQuickMethodHeader_oat K C s mth pc = Inr (Some h)" and "pc \<noteq> 0"
  shows "Contains h pc
       \<or> (\<not> fst (FindOatMethodFor C mth)
          \<and> h = FromEntryPoint C (GetEntryPointFromQuickCompiledCode s mth))
       \<or> (\<not> kIsDebugBuild K \<and> fst (FindOatMethodFor C mth)
          \<and> h = FromEntryPoint C (snd (FindOatMethodFor C mth)))"
proof (cases "fst (FindOatMethodFor C mth)")
  case False
  with assms show ?thesis
    by (simp add: GetOatQuickMethodHeader_oat_def Let_def case_prod_beta DCHECK_Inr
          split: if_splits)
next
  case True
  with assms show ?thesis
    by (simp add: GetOatQuickMethodHeader_oat_def Let_def case_prod_beta DCHECK_Inr
          split: if_splits) blast
qed

lemma GetOatQuickMethodHeader_paths:
  assumes "GetOatQuickMethodHeader K C s mth pc = Inr (Some h)"
  shows "(h = FromEntryPoint C (GetEntryPointFromQuickCompiledCode s mth) \<and> Contains h pc)
       \<or> (\<exists>j. jit s = Some j \<and> LookupMethodHeader C (code_cache j) pc mth = Some h)
       \<or> GetOatQuickMethodHeader_oat K C s mth pc = Inr (Some h)"
proof (cases "jit s")
  case None
  with assms show ?thesis
    by (simp add: GetOatQuickMethodHeader_def Let_def DCHECK_Inr CHECK_Inr split: if_splits)
next
  case (Some j)
  show ?thesis
  proof (cases "LookupMethodHeader C (code_cache j) pc mth")
    case None
    with assms Some show ?thesis
      by (simp add: GetOatQuickMethodHeader_def Let_def DCHECK_Inr CHECK_Inr split: if_splits)
  next
    case (Some h')
    with assms \<open>jit s = Some j\<close> show ?thesis
      by (simp add: GetOatQuickMethodHeader_def Let_def DCHECK_Inr CHECK_Inr split: if_splits)
  qed
qed

text \<open>
  C4, as the code has it. For a non-zero \<open>pc\<close>, a header that \<open>GetOatQuickMethodHeader\<close>
  returns contains \<open>pc\<close>, with two exceptions: when the class linker finds no OAT method
  for the descriptor, the fallback returns the header of the existing entry point without
  a containment check; and in a build without debug checks the header of the OAT code is
  returned unchecked. In a debug build an OAT header that does not contain \<open>pc\<close> is a
  fatal check failure, not a returned header.
\<close>

theorem GetOatQuickMethodHeader_contains:
  assumes "pc \<noteq> 0"
  shows "(GetOatQuickMethodHeader K C s mth pc = Inr (Some h) \<longrightarrow>
            Contains h pc
            \<or> (\<not> fst (FindOatMethodFor C mth)
               \<and> h = FromEntryPoint C (GetEntryPointFromQuickCompiledCode s mth))
            \<or> (\<not> kIsDebugBuild K \<and> fst (FindOatMethodFor C mth)
               \<and> h = FromEntryPoint C (snd (FindOatMethodFor C mth))))
       \<and> (kIsDebugBuild K \<and> fst (FindOatMethodFor C mth)
            \<and> snd (FindOatMethodFor C mth) \<noteq> 0
            \<and> \<not> IsQuickGenericJniStub C (snd (FindOatMethodFor C mth))
            \<and> \<not> Contains (FromEntryPoint C (snd (FindOatMethodFor C mth))) pc \<longrightarrow>
          GetOatQuickMethodHeader_oat K C s mth pc
            = Inl (CheckFailed ''method_header->Contains(pc)''))"
proof (intro conjI impI)
  assume r: "GetOatQuickMethodHeader K C s mth pc = Inr (Some h)"
  from GetOatQuickMethodHeader_paths [OF r]
  show "Contains h pc
       \<or> (\<not> fst (FindOatMethodFor C mth)
          \<and> h = FromEntryPoint C (GetEntryPointFromQuickCompiledCode s mth))
       \<or> (\<not> kIsDebugBuild K \<and> fst (FindOatMethodFor C mth)
          \<and> h = FromEntryPoint C (snd (FindOatMethodFor C mth)))"
    using GetOatQuickMethodHeader_oat_contains [OF _ assms] LookupMethodHeader_Contains
    by blast
next
  assume "kIsDebugBuild K \<and> fst (FindOatMethodFor C mth)
            \<and> snd (FindOatMethodFor C mth) \<noteq> 0
            \<and> \<not> IsQuickGenericJniStub C (snd (FindOatMethodFor C mth))
            \<and> \<not> Contains (FromEntryPoint C (snd (FindOatMethodFor C mth))) pc"
  then show "GetOatQuickMethodHeader_oat K C s mth pc
            = Inl (CheckFailed ''method_header->Contains(pc)'')"
    using assms
    by (simp add: GetOatQuickMethodHeader_oat_def Let_def DCHECK_def CHECK_def case_prod_beta)
qed

theorem GetOatQuickMethodHeader_contains_witness:
  "GetOatQuickMethodHeader example_constants example_collaborators example_state 1 2004
     = Inr (Some \<lparr>header_code = 2000, header_code_size = 16\<rparr>)
   \<and> Contains \<lparr>header_code = 2000, header_code_size = 16\<rparr> 2004
   \<and> kIsDebugBuild example_constants
   \<and> FindOatMethodFor example_collaborators 1 = (True, 2000)
   \<and> \<not> Contains (FromEntryPoint example_collaborators 2000) 5000
   \<and> GetOatQuickMethodHeader_oat example_constants example_collaborators example_state 1 5000
       = Inl (CheckFailed ''method_header->Contains(pc)'')"
  using GetOatQuickMethodHeader_contains [of 2004 example_constants example_collaborators
          example_state 1 "\<lparr>header_code = 2000, header_code_size = 16\<rparr>"]
        GetOatQuickMethodHeader_contains [of 5000 example_constants example_collaborators
          example_state 1 "\<lparr>header_code = 2000, header_code_size = 16\<rparr>"]
  by (simp add: GetOatQuickMethodHeader_def GetOatQuickMethodHeader_oat_def Let_def DCHECK_def
        CHECK_def example_defs accessor_defs FromEntryPoint_def Contains_def)

text \<open>
  C4, as the spec states it, fails: in a debug build, with no JIT and no OAT method for
  descriptor 2, whose entry point 1000 heads a region of 16 bytes, the call for \<open>pc = 5000\<close>
  returns the header of that region, which does not contain 5000.
\<close>

theorem GetOatQuickMethodHeader_fallback_counterexample:
  "GetOatQuickMethodHeader example_constants example_collaborators example_state 2 5000
     = Inr (Some \<lparr>header_code = 1000, header_code_size = 16\<rparr>)
   \<and> \<not> Contains \<lparr>header_code = 1000, header_code_size = 16\<rparr> 5000"
  by (simp add: GetOatQuickMethodHeader_def GetOatQuickMethodHeader_oat_def Let_def DCHECK_def
        CHECK_def example_defs accessor_defs FromEntryPoint_def Contains_def)

section \<open>The catch-block resolver\<close>

lemma FindCatchBlock_loop_found:
  "fst (FindCatchBlock_loop K C self mth exception_type hs s)
     = first_matching_handler K C mth exception_type hs"
proof (induction hs arbitrary: s)
  case Nil
  show ?case by (simp add: first_matching_handler_def)
next
  case (Cons h hs)
  obtain ti addr where h: "h = (ti, addr)" by (cases h)
  show ?case
    using Cons.IH
    by (simp add: h first_matching_handler_def handler_matches_def GetClassFromTypeIndex_def
          split: option.splits)
qed

lemma FindCatchBlock_loop_trace:
  "trace (snd (FindCatchBlock_loop K C self mth exception_type hs s))
     = trace s @ map Log_Warning_UnresolvedExceptionClass
                   (unresolved_before_match K C mth exception_type hs)"
proof (induction hs arbitrary: s)
  case Nil
  show ?case by (simp add: unresolved_before_match_def)
next
  case (Cons h hs)
  obtain ti addr where h: "h = (ti, addr)" by (cases h)
  show ?case
    by (simp add: h Cons.IH unresolved_before_match_def handler_matches_def
          GetClassFromTypeIndex_def emit_def delete_GetLongJumpContext_def ClearException_def
          SetException_def update_thread_def
          split: option.splits)
qed

lemma FindCatchBlock_loop_exception:
  "GetException s self = None \<Longrightarrow>
   GetException (snd (FindCatchBlock_loop K C self mth exception_type hs s)) self = None"
proof (induction hs arbitrary: s)
  case Nil
  then show ?case by simp
next
  case (Cons h hs)
  obtain ti addr where h: "h = (ti, addr)" by (cases h)
  have cleared: "GetException
      (emit e (delete_GetLongJumpContext self (ClearException self s1))) self = None" for e s1
    by (simp add: GetException_def emit_def delete_GetLongJumpContext_def ClearException_def
          update_thread_def)
  show ?case
    using Cons.prems
    by (simp add: h Cons.IH cleared GetClassFromTypeIndex_def split: option.splits)
qed

lemma FindCatchBlock_unfold:
  "FindCatchBlock K C self mth exception_type dex_pc has_no_move_exception s
     = (let r = FindCatchBlock_loop K C self mth exception_type
                  (CatchHandlerIterator (GetCodeItem C mth) dex_pc) (ClearException self s)
        in (fst r,
            (if fst r \<noteq> kDexNoIndex K
             then Opcode C (insns (GetCodeItem C mth) (unat (fst r))) \<noteq> MOVE_EXCEPTION K
             else has_no_move_exception),
            (case GetException s self of
               None \<Rightarrow> snd r
             | Some e \<Rightarrow> SetException self e (snd r))))"
  by (simp add: FindCatchBlock_def Let_def case_prod_beta)

text \<open>
  C5. \<open>FindCatchBlock\<close> returns the address of the first handler, in table order among
  those covering \<open>dex_pc\<close>, that is a catch-all or whose type resolves to a class assignable
  from the thrown class, and the no-handler value when there is none: a catch-all stops the
  scan, an unresolved type does not. The routine always returns, the calling thread's
  pending exception is the same after the call as before it (the error of a failed
  resolution is cleared), and one warning is logged for each unresolved handler type met
  before the match.
\<close>

theorem FindCatchBlock_scan:
  "fst (FindCatchBlock K C self mth exception_type dex_pc has_no_move_exception s)
     = first_matching_handler K C mth exception_type
         (CatchHandlerIterator (GetCodeItem C mth) dex_pc)
   \<and> GetException
        (snd (snd (FindCatchBlock K C self mth exception_type dex_pc has_no_move_exception s)))
        self
      = GetException s self
   \<and> trace (snd (snd (FindCatchBlock K C self mth exception_type dex_pc has_no_move_exception s)))
      = trace s @ map Log_Warning_UnresolvedExceptionClass
          (unresolved_before_match K C mth exception_type
             (CatchHandlerIterator (GetCodeItem C mth) dex_pc))"
proof -
  let ?hs = "CatchHandlerIterator (GetCodeItem C mth) dex_pc"
  let ?s1 = "ClearException self s"
  let ?r = "FindCatchBlock_loop K C self mth exception_type ?hs ?s1"
  have none: "GetException ?s1 self = None"
    by (simp add: GetException_def ClearException_def update_thread_def)
  have tr: "trace ?s1 = trace s"
    by (simp add: ClearException_def update_thread_def)
  have exc: "GetException (snd ?r) self = None"
    by (rule FindCatchBlock_loop_exception [OF none])
  have tr2: "trace (snd ?r) = trace s @ map Log_Warning_UnresolvedExceptionClass
               (unresolved_before_match K C mth exception_type ?hs)"
    by (simp add: FindCatchBlock_loop_trace tr)
  let ?s3 = "case GetException s self of
               None \<Rightarrow> snd ?r
             | Some e \<Rightarrow> SetException self e (snd ?r)"
  have e3: "GetException ?s3 self = GetException s self"
    using exc by (cases "GetException s self")
      (simp_all add: GetException_def SetException_def update_thread_def)
  have t3: "trace ?s3 = trace (snd ?r)"
    by (cases "GetException s self") (simp_all add: SetException_def update_thread_def)
  show ?thesis
    by (simp only: FindCatchBlock_unfold Let_def fst_conv snd_conv FindCatchBlock_loop_found
          e3 t3 tr2)
qed

theorem FindCatchBlock_scan_witness:
  "fst (FindCatchBlock example_constants example_collaborators 2 5 5 4 False example_state) = 40
   \<and> GetException
        (snd (snd (FindCatchBlock example_constants example_collaborators 2 5 5 4 False
                     example_state))) 2 = None
   \<and> trace (snd (snd (FindCatchBlock example_constants example_collaborators 2 5 5 4 False
                         example_state)))
      = [Log_Warning_UnresolvedExceptionClass 3]
   \<and> fst (FindCatchBlock example_constants example_collaborators 2 5 9 4 False example_state) = 50"
  using FindCatchBlock_scan [of example_constants example_collaborators 2 5 5 4 False
          example_state]
        FindCatchBlock_scan [of example_constants example_collaborators 2 5 9 4 False
          example_state]
  by (simp add: first_matching_handler_def handler_matches_def unresolved_before_match_def
        CatchHandlerIterator_def covers_def GetException_def example_defs)

text \<open>
  C9. The \<open>has_no_move_exception\<close> value after \<open>FindCatchBlock\<close> is the caller's value
  when the no-handler value is returned, and otherwise tells whether the opcode of the first
  instruction at the returned handler address differs from \<open>MOVE_EXCEPTION\<close>. When no
  handler matches, the no-handler value is returned and the caller's value is kept.
\<close>

theorem FindCatchBlock_has_no_move_exception:
  "fst (snd (FindCatchBlock K C self mth exception_type dex_pc has_no_move_exception s))
     = (if fst (FindCatchBlock K C self mth exception_type dex_pc has_no_move_exception s)
           \<noteq> kDexNoIndex K
        then Opcode C (insns (GetCodeItem C mth)
               (unat (fst (FindCatchBlock K C self mth exception_type dex_pc
                             has_no_move_exception s))))
             \<noteq> MOVE_EXCEPTION K
        else has_no_move_exception)
   \<and> (find (handler_matches K C mth exception_type)
         (CatchHandlerIterator (GetCodeItem C mth) dex_pc) = None \<longrightarrow>
        fst (FindCatchBlock K C self mth exception_type dex_pc has_no_move_exception s)
          = kDexNoIndex K
        \<and> fst (snd (FindCatchBlock K C self mth exception_type dex_pc has_no_move_exception s))
          = has_no_move_exception)"
  by (simp only: FindCatchBlock_unfold Let_def fst_conv snd_conv FindCatchBlock_loop_found)
     (simp add: first_matching_handler_def)

theorem FindCatchBlock_has_no_move_exception_witness:
  "fst (FindCatchBlock example_constants example_collaborators 2 5 5 4 True example_state) = 40
   \<and> fst (snd (FindCatchBlock example_constants example_collaborators 2 5 5 4 True
                  example_state)) = False
   \<and> fst (FindCatchBlock example_constants example_collaborators 2 5 9 4 False example_state) = 50
   \<and> fst (snd (FindCatchBlock example_constants example_collaborators 2 5 9 4 False
                  example_state)) = True
   \<and> find (handler_matches example_constants example_collaborators 5 5)
        (CatchHandlerIterator (GetCodeItem example_collaborators 5) 20) = None
   \<and> fst (FindCatchBlock example_constants example_collaborators 2 5 5 20 True example_state)
       = 0xFFFFFFFF
   \<and> fst (snd (FindCatchBlock example_constants example_collaborators 2 5 5 20 True
                  example_state)) = True"
proof -
  have f1: "fst (FindCatchBlock example_constants example_collaborators 2 5 5 4 True
                   example_state) = 40"
    and f2: "fst (FindCatchBlock example_constants example_collaborators 2 5 9 4 False
                   example_state) = 50"
    by (simp_all only: FindCatchBlock_unfold Let_def fst_conv FindCatchBlock_loop_found)
       (simp_all add: first_matching_handler_def handler_matches_def CatchHandlerIterator_def
          covers_def example_defs)
  have n: "find (handler_matches example_constants example_collaborators 5 5)
        (CatchHandlerIterator (GetCodeItem example_collaborators 5) 20) = None"
    by (simp add: CatchHandlerIterator_def covers_def example_defs)
  have k: "kDexNoIndex example_constants = 0xFFFFFFFF" "MOVE_EXCEPTION example_constants = 0x0D"
    "Opcode example_collaborators (insns (GetCodeItem example_collaborators 5) 40) = 0x0D"
    "Opcode example_collaborators (insns (GetCodeItem example_collaborators 5) 50) = 0x12"
    by (simp_all add: example_defs)
  from FindCatchBlock_has_no_move_exception [of example_constants example_collaborators 2 5 5 4
         True example_state]
       FindCatchBlock_has_no_move_exception [of example_constants example_collaborators 2 5 9 4
         False example_state]
       FindCatchBlock_has_no_move_exception [of example_constants example_collaborators 2 5 5 20
         True example_state]
  show ?thesis
    by (simp add: f1 f2 n k)
qed

section \<open>The invocation dispatcher\<close>

text \<open>
  C7. When the frame address is below the thread's stack end, \<open>Invoke\<close> throws
  \<open>StackOverflowError\<close> on the calling thread and returns: \<open>result\<close> holds what it held,
  and nothing of the state changes but that thread's pending exception; in particular no
  managed-stack fragment is pushed.
\<close>

theorem Invoke_stack_overflow:
  assumes "frame_address < stack_end (threads s self)"
  shows "Invoke K C self mth args args_size result shorty frame_address s
           = Inr (result,
                  s\<lparr>threads := (threads s)(self :=
                       (threads s self)\<lparr>pending_exception := Some StackOverflowError\<rparr>)\<rparr>)"
  using assms
  by (simp add: Invoke_def ThrowStackOverflowError_def SetException_def update_thread_def)

theorem Invoke_stack_overflow_witness:
  "(100::nat) < stack_end (threads example_state 2)
   \<and> Invoke example_constants example_collaborators 2 5 (\<lambda>i. 0) 0 (Some 42) ''V'' 100
        example_state
       = Inr (Some 42,
              example_state\<lparr>threads := (threads example_state)(2 :=
                (threads example_state 2)\<lparr>pending_exception := Some StackOverflowError\<rparr>)\<rparr>)"
proof -
  have h: "(100::nat) < stack_end (threads example_state 2)"
    by (simp add: example_defs)
  from Invoke_stack_overflow [OF h, of example_constants example_collaborators 5 "\<lambda>i. 0" 0
         "Some 42" "''V''"] h
  show ?thesis by simp
qed

text \<open>
  C6. When the stack check passes, the runtime is started, interpretation is not forced and
  the compiled-code entry point of the descriptor is null, \<open>Invoke\<close> returns normally:
  a non-null \<open>result\<close> holds zero, and the state is the one before the call but for the
  logged message: no exception is raised and the managed stack is restored. In a debug build
  the call's preconditions are checked first: thread suspension allowable, the thread
  runnable, the shorty that of the method, the image pointer size that of a pointer.
\<close>

theorem Invoke_no_code:
  assumes "\<not> frame_address < stack_end (threads s self)"
    and "runtime_started s"
    and "\<not> IsForcedInterpreterNeededForCalling C self mth"
    and "GetEntryPointFromQuickCompiledCode s mth = 0"
    and "kIsDebugBuild K \<longrightarrow>
           AssertThreadSuspensionIsAllowable C self
           \<and> thread_state (threads s self) = kRunnable
           \<and> GetShorty C mth = shorty
           \<and> GetImagePointerSize C = sizeof_void_ptr K"
  shows "Invoke K C self mth args args_size result shorty frame_address s
           = Inr (case result of None \<Rightarrow> None | Some old \<Rightarrow> Some 0,
                  s\<lparr>trace := trace s @ [Log_Info_NotInvoking mth]\<rparr>)"
  using assms
  by (simp add: Invoke_def CHECK_def DCHECK_def PushManagedStackFragment_def
        PopManagedStackFragment_def update_thread_def emit_def SetJ_def
        GetEntryPointFromQuickCompiledCode_def)

theorem Invoke_no_code_witness:
  "\<not> (5000::nat) < stack_end (threads
        (example_state\<lparr>art_methods :=
           \<lambda>p. example_method\<lparr>entry_point_from_quick_compiled_code := 0\<rparr>\<rparr>) 2)
   \<and> runtime_started example_state
   \<and> \<not> IsForcedInterpreterNeededForCalling example_collaborators 2 5
   \<and> kIsDebugBuild example_constants
   \<and> Invoke example_constants example_collaborators 2 5 (\<lambda>i. 0) 0 (Some 42) ''V'' 5000
        (example_state\<lparr>art_methods :=
           \<lambda>p. example_method\<lparr>entry_point_from_quick_compiled_code := 0\<rparr>\<rparr>)
       = Inr (Some 0,
              example_state\<lparr>art_methods :=
                  \<lambda>p. example_method\<lparr>entry_point_from_quick_compiled_code := 0\<rparr>,
                trace := [Log_Info_NotInvoking 5]\<rparr>)"
proof -
  let ?s = "example_state\<lparr>art_methods :=
              \<lambda>p. example_method\<lparr>entry_point_from_quick_compiled_code := 0\<rparr>\<rparr>"
  have h1: "\<not> (5000::nat) < stack_end (threads ?s 2)"
    and h2: "runtime_started ?s"
    and h3: "\<not> IsForcedInterpreterNeededForCalling example_collaborators 2 5"
    and h4: "GetEntryPointFromQuickCompiledCode ?s 5 = 0"
    and h5: "kIsDebugBuild example_constants \<longrightarrow>
           AssertThreadSuspensionIsAllowable example_collaborators 2
           \<and> thread_state (threads ?s 2) = kRunnable
           \<and> GetShorty example_collaborators 5 = ''V''
           \<and> GetImagePointerSize example_collaborators = sizeof_void_ptr example_constants"
    and h6: "kIsDebugBuild example_constants"
    and t: "trace ?s = []"
    by (simp_all add: example_defs GetEntryPointFromQuickCompiledCode_def)
  from Invoke_no_code [OF h1 h2 h3 h4 h5, of "\<lambda>i. 0" 0 "Some 42"] h1 h2 h3 h6
  show ?thesis by (simp add: t)
qed

section \<open>Native registration\<close>

lemma RegisterNative_not_hooked:
  "\<not> IsXposedHookedMethod K s mth \<Longrightarrow>
   RegisterNative K mth native_method is_fast s =
     Some (CHECK (IsNative K s mth) ''IsNative()''
        (CHECK (\<not> IsFastNative K s mth) ''!IsFastNative()''
        (CHECK (native_method \<noteq> 0) ''native_method != nullptr''
        (Inr (SetEntryPointFromJni mth native_method
                (if is_fast
                 then SetAccessFlags mth (GetAccessFlags s mth OR kAccFastNative K) s
                 else s))))))"
  by (subst RegisterNative.simps) simp

text \<open>
  C10. When \<open>RegisterNative\<close> with \<open>is_fast\<close> succeeds on a method that is not hooked, the
  method is fast-native afterwards, and \<open>UnregisterNative\<close> on it then fails its check
  "native and not fast-native": the process aborts and the lookup stub is not restored.
  Registering the method again fails the check "not fast-native" in the same way.
  The fast-native bit is taken to be not zero and not the hooked-method bit.
\<close>

theorem UnregisterNative_after_fast_register:
  assumes "\<not> IsXposedHookedMethod K s mth"
    and "kAccFastNative K \<noteq> 0"
    and "kAccFastNative K AND kAccXposedHookedMethod K = 0"
    and "RegisterNative K mth native_method True s = Some (Inr s')"
  shows "IsFastNative K s' mth
       \<and> UnregisterNative K mth s' = Some (Inl (CheckFailed ''IsNative() && !IsFastNative()''))
       \<and> RegisterNative K mth native_method' is_fast' s'
           = Some (Inl (CheckFailed ''!IsFastNative()''))"
proof -
  from assms(1,4) have native: "IsNative K s mth"
    and s': "s' = SetEntryPointFromJni mth native_method
                    (SetAccessFlags mth (GetAccessFlags s mth OR kAccFastNative K) s)"
    by (auto simp: RegisterNative_not_hooked CHECK_def split: if_splits)
  have flags: "GetAccessFlags s' mth = GetAccessFlags s mth OR kAccFastNative K"
    by (simp add: s' accessor_defs)
  have fast: "IsFastNative K s' mth"
    using assms(2) by (simp add: IsFastNative_def flags bit.conj_disj_distrib2)
  have "GetAccessFlags s mth AND kAccXposedHookedMethod K = 0"
    using assms(1) by (simp add: IsXposedHookedMethod_def)
  then have not_hooked: "\<not> IsXposedHookedMethod K s' mth"
    using assms(3) by (simp add: IsXposedHookedMethod_def flags bit.conj_disj_distrib2)
  have native': "IsNative K s' mth"
    using native by (simp add: IsNative_def flags bit.conj_disj_distrib2 or_eq_0_iff)
  have unreg: "UnregisterNative K mth s'
      = Some (Inl (CheckFailed ''IsNative() && !IsFastNative()''))"
    by (subst UnregisterNative.simps) (simp add: not_hooked fast)
  have rereg: "RegisterNative K mth native_method' is_fast' s'
      = Some (Inl (CheckFailed ''!IsFastNative()''))"
    by (simp add: RegisterNative_not_hooked [OF not_hooked] CHECK_def native' fast)
  from fast unreg rereg show ?thesis by simp
qed

theorem UnregisterNative_after_fast_register_witness:
  "\<not> IsXposedHookedMethod example_constants example_state 5
   \<and> kAccFastNative example_constants \<noteq> 0
   \<and> kAccFastNative example_constants AND kAccXposedHookedMethod example_constants = 0
   \<and> RegisterNative example_constants 5 555 True example_state
       = Some (Inr (SetEntryPointFromJni 5 555 (SetAccessFlags 5 0x00080101 example_state)))
   \<and> IsFastNative example_constants
        (SetEntryPointFromJni 5 555 (SetAccessFlags 5 0x00080101 example_state)) 5
   \<and> UnregisterNative example_constants 5
        (SetEntryPointFromJni 5 555 (SetAccessFlags 5 0x00080101 example_state))
       = Some (Inl (CheckFailed ''IsNative() && !IsFastNative()''))
   \<and> RegisterNative example_constants 5 15 False
        (SetEntryPointFromJni 5 555 (SetAccessFlags 5 0x00080101 example_state))
       = Some (Inl (CheckFailed ''!IsFastNative()''))"
proof -
  have h1: "\<not> IsXposedHookedMethod example_constants example_state 5"
    by (simp add: IsXposedHookedMethod_def GetAccessFlags_def example_defs)
  have h2: "kAccFastNative example_constants \<noteq> 0"
    and h3: "kAccFastNative example_constants AND kAccXposedHookedMethod example_constants = 0"
    by (simp_all add: example_constants_def)
  have fl: "GetAccessFlags example_state 5 OR kAccFastNative example_constants = 0x00080101"
    by (simp add: GetAccessFlags_def example_defs)
  have ok: "IsNative example_constants example_state 5"
    "\<not> IsFastNative example_constants example_state 5"
    by (simp_all add: IsNative_def IsFastNative_def GetAccessFlags_def example_defs)
  have h4: "RegisterNative example_constants 5 555 True example_state
       = Some (Inr (SetEntryPointFromJni 5 555 (SetAccessFlags 5 0x00080101 example_state)))"
    by (simp add: RegisterNative_not_hooked [OF h1] CHECK_def ok fl)
  from UnregisterNative_after_fast_register [OF h1 h2 h3 h4, of 15 False] h1 h2 h3 h4
  show ?thesis by simp
qed

section \<open>Invalidation of compiled code\<close>

lemma ignore_aot_code_idem: "ignore_aot_code m \<Longrightarrow> m\<lparr>ignore_aot_code := True\<rparr> = m"
  by (cases m) simp

lemma SetIgnoreAotCode_idem: "IgnoreAotCode s mth \<Longrightarrow> SetIgnoreAotCode mth s = s"
  by (simp add: IgnoreAotCode_def SetIgnoreAotCode_def update_method_def ignore_aot_code_idem)

lemma UseJitCompilation_SetIgnoreAotCode:
  "UseJitCompilation (SetIgnoreAotCode mth s) = UseJitCompilation s"
  by (simp add: UseJitCompilation_def SetIgnoreAotCode_def update_method_def)

text \<open>
  C8, as the code has it. \<open>InvalidateCompiledCode\<close> on a hooked descriptor fails a fatal
  check: the process aborts before any state is changed, and nothing is reported to the
  caller. On a descriptor that is not hooked it sets the ignore-AOT mark and then, when JIT
  compilation is in use, asks the JIT code cache to invalidate the method's compiled code,
  and otherwise sets the compiled-code entry point to the interpreter bridge.
\<close>

theorem InvalidateCompiledCode_cases:
  "(IsXposedHookedMethod K s mth \<longrightarrow>
      InvalidateCompiledCode K mth s = Inl (CheckFailed ''!IsXposedHookedMethod()''))
   \<and> (\<not> IsXposedHookedMethod K s mth \<longrightarrow>
        InvalidateCompiledCode K mth s
          = Inr (if UseJitCompilation s
                 then emit (InvalidateCompiledCodeFor mth) (SetIgnoreAotCode mth s)
                 else SetEntryPointFromQuickCompiledCode mth (GetQuickToInterpreterBridge K)
                        (SetIgnoreAotCode mth s)))"
  by (simp add: InvalidateCompiledCode_def CHECK_def Let_def SetIgnoreAotCode_idem
        UseJitCompilation_SetIgnoreAotCode)

theorem InvalidateCompiledCode_cases_witness:
  "IsXposedHookedMethod example_constants
     (example_state\<lparr>art_methods := \<lambda>p. example_method\<lparr>access_flags := 0x10000001\<rparr>\<rparr>) 5
   \<and> InvalidateCompiledCode example_constants 5
        (example_state\<lparr>art_methods := \<lambda>p. example_method\<lparr>access_flags := 0x10000001\<rparr>\<rparr>)
       = Inl (CheckFailed ''!IsXposedHookedMethod()'')
   \<and> \<not> IsXposedHookedMethod example_constants example_state 5
   \<and> \<not> UseJitCompilation example_state
   \<and> InvalidateCompiledCode example_constants 5 example_state
       = Inr (SetEntryPointFromQuickCompiledCode 5 11 (SetIgnoreAotCode 5 example_state))
   \<and> UseJitCompilation
        (example_state\<lparr>jit := Some \<lparr>use_jit_compilation = True,
           code_cache = \<lparr>code_map_begin = 3000, code_map_end = 4000, method_code_map = []\<rparr>\<rparr>\<rparr>)
   \<and> trace (projr (InvalidateCompiledCode example_constants 5
        (example_state\<lparr>jit := Some \<lparr>use_jit_compilation = True,
           code_cache = \<lparr>code_map_begin = 3000, code_map_end = 4000,
                         method_code_map = []\<rparr>\<rparr>\<rparr>)))
       = [InvalidateCompiledCodeFor 5]"
proof -
  let ?hooked = "example_state\<lparr>art_methods := \<lambda>p. example_method\<lparr>access_flags := 0x10000001\<rparr>\<rparr>"
  let ?jit = "example_state\<lparr>jit := Some \<lparr>use_jit_compilation = True,
           code_cache = \<lparr>code_map_begin = 3000, code_map_end = 4000, method_code_map = []\<rparr>\<rparr>\<rparr>"
  have h1: "IsXposedHookedMethod example_constants ?hooked 5"
    and h2: "\<not> IsXposedHookedMethod example_constants example_state 5"
    and h3: "\<not> IsXposedHookedMethod example_constants ?jit 5"
    by (simp_all add: IsXposedHookedMethod_def GetAccessFlags_def example_defs)
  have j: "\<not> UseJitCompilation example_state" "UseJitCompilation ?jit"
    by (simp_all add: UseJitCompilation_def example_defs)
  have k: "GetQuickToInterpreterBridge example_constants = 11"
    by (simp add: example_constants_def)
  have t: "trace (emit (InvalidateCompiledCodeFor 5) (SetIgnoreAotCode 5 ?jit))
             = [InvalidateCompiledCodeFor 5]"
    by (simp add: emit_def SetIgnoreAotCode_def update_method_def example_state_def)
  from InvalidateCompiledCode_cases [of example_constants ?hooked 5]
       InvalidateCompiledCode_cases [of example_constants example_state 5]
       InvalidateCompiledCode_cases [of example_constants ?jit 5]
       h1 h2 h3 j
  show ?thesis by (simp add: k t)
qed

text \<open>
  C8, as the spec states it, fails: on a hooked descriptor the call does not return to its
  caller with a reported error, it aborts the process.
\<close>

theorem InvalidateCompiledCode_hooked_counterexample:
  "IsXposedHookedMethod example_constants
     (example_state\<lparr>art_methods := \<lambda>p. example_method\<lparr>access_flags := 0x10000001\<rparr>\<rparr>) 5
   \<and> InvalidateCompiledCode example_constants 5
        (example_state\<lparr>art_methods := \<lambda>p. example_method\<lparr>access_flags := 0x10000001\<rparr>\<rparr>)
       = Inl (CheckFailed ''!IsXposedHookedMethod()'')"
  by (simp add: InvalidateCompiledCode_def CHECK_def IsXposedHookedMethod_def GetAccessFlags_def
        example_defs)

end
